theory Spec2Isabelle
  imports Main
begin

section \<open>Python values, exceptions and builtins\<close>

text \<open>
  The toolkit is Python 3 (it uses f-strings). Python numbers are kept as a type
  parameter \<open>'a\<close> of sort \<open>linordered_idom\<close>: \<open>int\<close> is Python's unbounded
  \<open>int\<close>; a field whose bounds or values are floats is read over an exact ordered
  ring (no NaN, no rounding in \<open>max_value - 2\<close>). A Python \<open>str\<close> is a \<open>string\<close>,
  one \<open>char\<close> per code point. A naive \<open>datetime.datetime\<close> is its components,
  compared as CPython compares them, component by component.
\<close>

datatype datetime = Datetime (dt_year: nat) (dt_month: nat) (dt_day: nat) (dt_usec: nat)

fun dt_less :: "datetime \<Rightarrow> datetime \<Rightarrow> bool" where
  "dt_less (Datetime y m d u) (Datetime y' m' d' u') =
     (y < y' \<or> (y = y' \<and> (m < m' \<or> (m = m' \<and> (d < d' \<or> (d = d' \<and> u < u'))))))"

datatype 'a pyval = PNone | PNum 'a | PStr string | PDate datetime

text \<open>
  \<open>exceptions.ValidateError(text, *args)\<close>: one constructor per raise site of
  \<open>fields.py\<close>, carrying the values the message is built from.
\<close>

datatype 'a validate_error =
    Bad_type                      \<comment> \<open>"value_type declared does not match with provided value's type"\<close>
  | Below_min 'a 'a               \<comment> \<open>"min_value = {}, input = {}"\<close>
  | Above_max 'a 'a               \<comment> \<open>"max_value = {}, input = {}"\<close>
  | Outside 'a 'a 'a              \<comment> \<open>"{} < {} < {} != True"\<close>
  | Too_long int                  \<comment> \<open>"max_length has been exceeded", max_length\<close>
  | No_email string               \<comment> \<open>"can't extract email from string ", value\<close>
  | No_phone string               \<comment> \<open>"can't extract phone number from string", value\<close>
  | No_date string                \<comment> \<open>"can't parse datetime from string", value, format\<close>
  | Not_earlier string            \<comment> \<open>"should be earlier than ..."\<close>
  | Not_later string              \<comment> \<open>"should be later than ..."\<close>
  | Not_between string string     \<comment> \<open>"should be later than ... and earlier than ..."\<close>

datatype 'a exn =
    ValidateError "'a validate_error"
  | ValueError
  | TypeError
  | AttributeError
  | EOFError
  | KeyError
  | IndexError

text \<open>
  What \<open>str.format\<close> raises on a template it cannot fill: \<open>ValueError\<close> (a single
  brace, a bad field), \<open>IndexError\<close> (more fields than arguments), \<open>KeyError\<close> (a
  named field), \<open>AttributeError\<close> and \<open>TypeError\<close> (an attribute or an index of an
  argument).
\<close>

datatype format_error =
    Format_ValueError
  | Format_IndexError
  | Format_KeyError
  | Format_AttributeError
  | Format_TypeError

fun format_exn :: "format_error \<Rightarrow> 'a exn" where
  "format_exn Format_ValueError = ValueError"
| "format_exn Format_IndexError = IndexError"
| "format_exn Format_KeyError = KeyError"
| "format_exn Format_AttributeError = AttributeError"
| "format_exn Format_TypeError = TypeError"

text \<open>
  What the code calls and the repository does not define: Python's builtins, the
  \<open>datetime\<close> and \<open>re\<close> modules and the module \<open>utils\<close>. A conversion
  returns \<open>None\<close> where Python raises \<open>ValueError\<close> or \<open>TypeError\<close>.
\<close>

record 'a builtins =
  py_int :: "string \<Rightarrow> 'a option"            \<comment> \<open>\<open>int(s)\<close>\<close>
  py_float :: "string \<Rightarrow> 'a option"          \<comment> \<open>\<open>float(s)\<close>\<close>
  py_round :: "'a \<Rightarrow> int \<Rightarrow> 'a"              \<comment> \<open>\<open>round(x, ndigits)\<close>\<close>
  py_hash :: "string option \<Rightarrow> 'a"           \<comment> \<open>\<open>hash(x)\<close> of \<open>None\<close> or of a str\<close>
  str_num :: "'a \<Rightarrow> string"                  \<comment> \<open>\<open>str(x)\<close> of a number\<close>
  str_int :: "int \<Rightarrow> string"                 \<comment> \<open>\<open>str(n)\<close> of an int\<close>
  strptime :: "string \<Rightarrow> datetime option"    \<comment> \<open>\<open>datetime.strptime(s, '%d.%m.%Y')\<close>\<close>
  strftime :: "datetime \<Rightarrow> string"           \<comment> \<open>\<open>d.strftime('%d.%m.%Y')\<close>\<close>
  email_fullmatch :: "string \<Rightarrow> bool"        \<comment> \<open>\<open>re.fullmatch\<close> of the email pattern\<close>
  phone_fullmatch :: "string \<Rightarrow> bool"        \<comment> \<open>\<open>re.fullmatch\<close> of the phone pattern\<close>
  str_upper :: "string \<Rightarrow> string"            \<comment> \<open>\<open>s.upper()\<close>\<close>
  py_format :: "string \<Rightarrow> string list \<Rightarrow> format_error + string"
                                            \<comment> \<open>\<open>s.format(*args)\<close> with str arguments\<close>
  format_bold :: "string \<Rightarrow> string"          \<comment> \<open>\<open>utils.format_str(s, utils.TerminalColors.BOLD)\<close>\<close>

text \<open>Truthiness, as \<open>if x:\<close> reads a number, a str or a datetime that may be \<open>None\<close>.\<close>

definition truthy_num :: "'a::zero option \<Rightarrow> bool" where
  "truthy_num x = (case x of None \<Rightarrow> False | Some n \<Rightarrow> n \<noteq> 0)"

definition truthy_str :: "string option \<Rightarrow> bool" where
  "truthy_str x = (case x of None \<Rightarrow> False | Some s \<Rightarrow> s \<noteq> [])"

definition truthy_dt :: "datetime option \<Rightarrow> bool" where
  "truthy_dt x = (case x of None \<Rightarrow> False | Some d \<Rightarrow> True)"

text \<open>Python 3 orders \<open>None\<close> with nothing: \<open>a > b\<close> raises \<open>TypeError\<close>.\<close>

definition py_gt :: "'a::linorder option \<Rightarrow> 'a option \<Rightarrow> 'a exn + bool" where
  "py_gt x y = (case (x, y) of (Some a, Some b) \<Rightarrow> Inr (b < a) | _ \<Rightarrow> Inl TypeError)"

section \<open>Fields\<close>

subsection \<open>\<open>_InputField\<close>\<close>

record 'v input_field =
  priv_value :: "'v option"      \<comment> \<open>\<open>self._value\<close>, \<open>None\<close> until a value is stored\<close>
  label :: string
  hint :: "string option"

definition InputField_validate :: "'v \<Rightarrow> 'a validate_error option" where
  "InputField_validate v = None"

definition InputField_convert_type :: "(string \<Rightarrow> 'v option) \<Rightarrow> string \<Rightarrow> 'a exn + 'v" where
  "InputField_convert_type value_type raw =
     (case value_type raw of
        None \<Rightarrow> Inl (ValidateError Bad_type)
      | Some v \<Rightarrow> Inr v)"

text \<open>
  The setter of \<open>value\<close>. The object outlives a raise, so the field comes back with
  the outcome: \<open>None\<close> for a normal return, \<open>Some e\<close> for the exception raised.
  \<open>conv\<close> and \<open>valid\<close> are \<open>self._convert_type\<close> and \<open>self.validate\<close> of the
  object's class.
\<close>

definition InputField_set_value ::
  "(string \<Rightarrow> 'a exn + 'v) \<Rightarrow> ('v \<Rightarrow> 'a validate_error option) \<Rightarrow>
   ('v, 'm) input_field_scheme \<Rightarrow> string \<Rightarrow> 'a exn option \<times> ('v, 'm) input_field_scheme" where
  "InputField_set_value conv valid f raw =
     (case conv raw of
        Inl e \<Rightarrow> (Some e, f)
      | Inr v \<Rightarrow>
          (case valid v of
             None \<Rightarrow> (None, f\<lparr>priv_value := Some v\<rparr>)
           | Some e \<Rightarrow> (Some (ValidateError e), f)))"

subsection \<open>\<open>_NumericField\<close>, \<open>IntegerField\<close>, \<open>FloatField\<close>\<close>

datatype numeric_class = IntegerField | FloatField (mantissa: int)

record 'a numeric_field = "'a input_field" +
  min_value :: "'a option"
  max_value :: "'a option"
  num_class :: numeric_class

definition NumericField_init ::
  "numeric_class \<Rightarrow> string \<Rightarrow> 'a::linordered_idom option \<Rightarrow> 'a option \<Rightarrow> string option \<Rightarrow>
   'a exn + 'a numeric_field" where
  "NumericField_init c lbl maxv minv h =
     (case py_gt minv maxv of
        Inl e \<Rightarrow> Inl e
      | Inr b \<Rightarrow>
          Inr \<lparr>priv_value = None, label = lbl, hint = h,
               min_value = (if b then map_option (\<lambda>m. m - 2) maxv else minv),
               max_value = maxv, num_class = c\<rparr>)"

definition IntegerField_init ::
  "string \<Rightarrow> 'a::linordered_idom option \<Rightarrow> 'a option \<Rightarrow> string option \<Rightarrow> 'a exn + 'a numeric_field" where
  "IntegerField_init lbl maxv minv h = NumericField_init IntegerField lbl maxv minv h"

definition FloatField_init ::
  "string \<Rightarrow> int \<Rightarrow> 'a::linordered_idom option \<Rightarrow> 'a option \<Rightarrow> string option \<Rightarrow>
   'a exn + 'a numeric_field" where
  "FloatField_init lbl m maxv minv h = NumericField_init (FloatField m) lbl maxv minv h"

definition NumericField_validate ::
  "'a::linordered_idom numeric_field \<Rightarrow> 'a \<Rightarrow> 'a validate_error option" where
  "NumericField_validate f v =
     (if truthy_num (min_value f) \<and> \<not> truthy_num (max_value f) then
        (if \<not> the (min_value f) < v then Some (Below_min (the (min_value f)) v)
         else InputField_validate v)
      else if truthy_num (max_value f) \<and> \<not> truthy_num (min_value f) then
        (if \<not> the (max_value f) > v then Some (Above_max (the (max_value f)) v)
         else InputField_validate v)
      else if truthy_num (max_value f) \<and> truthy_num (min_value f) then
        (if \<not> (the (min_value f) < v \<and> v < the (max_value f))
         then Some (Outside (the (min_value f)) v (the (max_value f)))
         else InputField_validate v)
      else InputField_validate v)"

definition NumericField_convert_type ::
  "'a builtins \<Rightarrow> 'a numeric_field \<Rightarrow> string \<Rightarrow> 'a exn + 'a" where
  "NumericField_convert_type E f raw =
     InputField_convert_type
       (case num_class f of IntegerField \<Rightarrow> py_int E | FloatField m \<Rightarrow> py_float E) raw"

definition NumericField_set_value ::
  "'a::linordered_idom builtins \<Rightarrow> 'a numeric_field \<Rightarrow> string \<Rightarrow> 'a exn option \<times> 'a numeric_field" where
  "NumericField_set_value E f raw =
     InputField_set_value (NumericField_convert_type E f) (NumericField_validate f) f raw"

subsection \<open>\<open>StringField\<close>, \<open>HashedField\<close>, \<open>EmailField\<close>, \<open>PhoneNumberField\<close>\<close>

datatype string_class = StringField | HashedField | EmailField | PhoneNumberField

record string_field = "string input_field" +
  max_length :: "int option"
  str_class :: string_class

definition DEFAULT_MAX_LENGTH :: int where
  "DEFAULT_MAX_LENGTH = 256"

definition StringField_init :: "string_class \<Rightarrow> string \<Rightarrow> string option \<Rightarrow> int option \<Rightarrow> string_field" where
  "StringField_init c lbl h ml =
     \<lparr>priv_value = None, label = lbl, hint = h, max_length = ml, str_class = c\<rparr>"

definition truthy_int :: "int option \<Rightarrow> bool" where
  "truthy_int x = (case x of None \<Rightarrow> False | Some n \<Rightarrow> n \<noteq> 0)"

definition StringField_validate :: "string_field \<Rightarrow> string \<Rightarrow> 'a validate_error option" where
  "StringField_validate f v =
     (if truthy_int (max_length f) \<and> int (length v) > the (max_length f)
      then Some (Too_long (the (max_length f)))
      else InputField_validate v)"

definition EmailField_validate :: "'a builtins \<Rightarrow> string_field \<Rightarrow> string \<Rightarrow> 'a validate_error option" where
  "EmailField_validate E f v =
     (if \<not> email_fullmatch E v then Some (No_email v) else StringField_validate f v)"

definition PhoneNumberField_validate :: "'a builtins \<Rightarrow> string_field \<Rightarrow> string \<Rightarrow> 'a validate_error option" where
  "PhoneNumberField_validate E f v =
     (if \<not> phone_fullmatch E v then Some (No_phone v) else StringField_validate f v)"

text \<open>\<open>self.validate\<close> of a string field, by the class of the object.\<close>

definition string_validate :: "'a builtins \<Rightarrow> string_field \<Rightarrow> string \<Rightarrow> 'a validate_error option" where
  "string_validate E f v =
     (case str_class f of
        EmailField \<Rightarrow> EmailField_validate E f v
      | PhoneNumberField \<Rightarrow> PhoneNumberField_validate E f v
      | _ \<Rightarrow> StringField_validate f v)"

text \<open>\<open>value_type = str\<close>: \<open>str(s)\<close> of a str is the str itself.\<close>

definition StringField_convert_type :: "string \<Rightarrow> 'a exn + string" where
  "StringField_convert_type raw = InputField_convert_type Some raw"

definition StringField_set_value ::
  "'a builtins \<Rightarrow> string_field \<Rightarrow> string \<Rightarrow> 'a exn option \<times> string_field" where
  "StringField_set_value E f raw =
     InputField_set_value StringField_convert_type (string_validate E f) f raw"

subsection \<open>\<open>DateField\<close>\<close>

record date_field = "datetime input_field" +
  earlier_than :: "datetime option"
  later_than :: "datetime option"

definition DateField_init ::
  "string \<Rightarrow> datetime option \<Rightarrow> datetime option \<Rightarrow> string option \<Rightarrow> 'a exn + date_field" where
  "DateField_init lbl et lt h =
     (if truthy_dt et \<and> truthy_dt lt \<and> \<not> dt_less (the lt) (the et)
      then Inl ValueError
      else Inr \<lparr>priv_value = None, label = lbl, hint = h, earlier_than = et, later_than = lt\<rparr>)"

definition DateField_validate :: "'a builtins \<Rightarrow> date_field \<Rightarrow> datetime \<Rightarrow> 'a validate_error option" where
  "DateField_validate E f v =
     (let earlier_than_f = (if truthy_dt (earlier_than f) then strftime E (the (earlier_than f)) else []);
          later_than_f = (if truthy_dt (later_than f) then strftime E (the (later_than f)) else [])
      in
      if truthy_dt (earlier_than f) \<and> \<not> truthy_dt (later_than f) then
        (if \<not> dt_less v (the (earlier_than f)) then Some (Not_earlier earlier_than_f)
         else InputField_validate v)
      else if truthy_dt (later_than f) \<and> \<not> truthy_dt (earlier_than f) then
        (if \<not> dt_less (the (later_than f)) v then Some (Not_later later_than_f)
         else InputField_validate v)
      else if truthy_dt (later_than f) \<and> truthy_dt (earlier_than f) then
        (if \<not> (dt_less (the (later_than f)) v \<and> dt_less v (the (earlier_than f)))
         then Some (Not_between later_than_f earlier_than_f)
         else InputField_validate v)
      else InputField_validate v)"

definition DateField_convert_type :: "'a builtins \<Rightarrow> string \<Rightarrow> 'a exn + datetime" where
  "DateField_convert_type E raw =
     (case strptime E raw of
        None \<Rightarrow> Inl (ValidateError (No_date raw))
      | Some v \<Rightarrow> Inr v)"

definition DateField_set_value ::
  "'a builtins \<Rightarrow> date_field \<Rightarrow> string \<Rightarrow> 'a exn option \<times> date_field" where
  "DateField_set_value E f raw =
     InputField_set_value (DateField_convert_type E) (DateField_validate E f) f raw"

section \<open>The terminal, prompts and the render loop\<close>

datatype 'a event =
    Prompt string                      \<comment> \<open>the prompt \<open>input\<close> writes\<close>
  | Error_line "'a validate_error"     \<comment> \<open>\<open>print(utils.format_str(ex.__str__(), RED))\<close>\<close>
  | Line string                        \<comment> \<open>any other printed line\<close>

record 'a terminal =
  stdin :: "string list"               \<comment> \<open>the lines still to be read\<close>
  stdout :: "'a event list"

text \<open>\<open>input(prompt)\<close> writes the prompt, then reads a line; at end of input it raises.\<close>

definition input :: "string \<Rightarrow> 'a terminal \<Rightarrow> ('a exn + string) \<times> 'a terminal" where
  "input p t =
     (case stdin t of
        [] \<Rightarrow> (Inl EOFError, t\<lparr>stdout := stdout t @ [Prompt p]\<rparr>)
      | l # ls \<Rightarrow> (Inr l, t\<lparr>stdin := ls, stdout := stdout t @ [Prompt p]\<rparr>))"

definition print_error :: "'a validate_error \<Rightarrow> 'a terminal \<Rightarrow> 'a terminal" where
  "print_error ve t = t\<lparr>stdout := stdout t @ [Error_line ve]\<rparr>"

text \<open>
  Every \<open>_formatted_input\<close> is \<open>return input(<prompt text>)\<close>: the text is built
  first, and an exception raised while building it leaves before \<open>input\<close> is called.
\<close>

definition formatted_input ::
  "'a exn + string \<Rightarrow> 'a terminal \<Rightarrow> ('a exn + string) \<times> 'a terminal" where
  "formatted_input prompt t = (case prompt of Inl e \<Rightarrow> (Inl e, t) | Inr p \<Rightarrow> input p t)"

text \<open>\<open>s.format(*args)\<close>, with what it raises as an exception of the program.\<close>

definition str_format :: "'a builtins \<Rightarrow> string \<Rightarrow> string list \<Rightarrow> 'a exn + string" where
  "str_format E s args =
     (case py_format E s args of
        Inl e \<Rightarrow> Inl (format_exn e)
      | Inr r \<Rightarrow> Inr r)"

text \<open>
  \<open>_NumericField._formatted_input\<close>. The list \<open>ad\<close> holds at most the hint and one
  bound text, so \<open>while len(ad) != 2: ad.append('')\<close> pads it to two entries. The
  template \<open>s\<close> is the formatted label followed by \<open>" ({}): "\<close>, and the prompt
  is \<open>s.format(*ad)\<close>: the label is part of the template, so a brace in it is read
  as a replacement field, and \<open>format\<close> may raise before \<open>input\<close> is called.
\<close>

fun pad2 :: "string list \<Rightarrow> string list" where
  "pad2 [] = [[], []]"
| "pad2 [a] = [a, []]"
| "pad2 ad = ad"

definition NumericField_prompt ::
  "'a::linordered_idom builtins \<Rightarrow> 'a numeric_field \<Rightarrow> 'a exn + string" where
  "NumericField_prompt E f =
     (let ad0 = (if truthy_str (hint f) then [the (hint f) @ '', ''] else []);
          ad1 =
            (if truthy_num (min_value f) \<and> \<not> truthy_num (max_value f) then
               ad0 @ [''>'' @ str_num E (the (min_value f))]
             else if (truthy_num (max_value f) \<and> \<not> truthy_num (min_value f))
                  \<or> (truthy_num (max_value f) \<and> truthy_num (min_value f) \<and> max_value f = Some 0) then
               ad0 @ [''<'' @ str_num E (the (max_value f))]
             else if truthy_num (min_value f) \<and> truthy_num (max_value f) then
               ad0 @ [str_num E (the (min_value f)) @ '' < n < '' @ str_num E (the (max_value f))]
             else ad0)
      in str_format E (format_bold E (label f) @ '' '' @ ''({}): '') (pad2 ad1))"

definition NumericField_formatted_input ::
  "'a::linordered_idom builtins \<Rightarrow> 'a numeric_field \<Rightarrow> 'a terminal \<Rightarrow> ('a exn + string) \<times> 'a terminal" where
  "NumericField_formatted_input E f t = formatted_input (NumericField_prompt E f) t"

definition StringField_prompt :: "'a builtins \<Rightarrow> string_field \<Rightarrow> string" where
  "StringField_prompt E f =
     (if truthy_str (hint f) \<and> truthy_int (max_length f) then
        format_bold E (label f) @ '' ('' @ the (hint f) @ '', max. '' @ str_int E (the (max_length f)) @ ''): ''
      else if truthy_str (hint f) then
        format_bold E (label f) @ '' ('' @ the (hint f) @ ''): ''
      else if truthy_int (max_length f) then
        format_bold E (label f) @ '' (max. '' @ str_int E (the (max_length f)) @ ''): ''
      else format_bold E (label f) @ '': '')"

definition StringField_formatted_input ::
  "'a builtins \<Rightarrow> string_field \<Rightarrow> 'a terminal \<Rightarrow> ('a exn + string) \<times> 'a terminal" where
  "StringField_formatted_input E f t = formatted_input (Inr (StringField_prompt E f)) t"

text \<open>
  \<open>DateField._formatted_input\<close>: the branch for \<open>later_than\<close> alone formats
  \<open>self.earlier_than\<close>, which is \<open>None\<close> there, and \<open>None.strftime\<close> raises
  \<open>AttributeError\<close>.
\<close>

definition format_string :: string where
  "format_string = ''%d.%m.%Y''"

definition py_strftime :: "'a builtins \<Rightarrow> datetime option \<Rightarrow> 'a exn + string" where
  "py_strftime E d = (case d of None \<Rightarrow> Inl AttributeError | Some x \<Rightarrow> Inr (strftime E x))"

definition DateField_prompt :: "'a builtins \<Rightarrow> date_field \<Rightarrow> 'a exn + string" where
  "DateField_prompt E f =
     (let lbl = format_bold E (label f) @ '' - '' @ format_string @ '' '' in
      if truthy_str (hint f) then Inr (lbl @ ''('' @ the (hint f) @ ''): '')
      else if truthy_dt (earlier_than f) \<and> \<not> truthy_dt (later_than f) then
        (case py_strftime E (earlier_than f) of
           Inl e \<Rightarrow> Inl e
         | Inr s \<Rightarrow> Inr (lbl @ ''(< '' @ s @ ''): ''))
      else if truthy_dt (later_than f) \<and> \<not> truthy_dt (earlier_than f) then
        (case py_strftime E (earlier_than f) of
           Inl e \<Rightarrow> Inl e
         | Inr s \<Rightarrow> Inr (lbl @ ''(> '' @ s @ ''): ''))
      else if truthy_dt (later_than f) \<and> truthy_dt (earlier_than f) then
        (case py_strftime E (later_than f) of
           Inl e \<Rightarrow> Inl e
         | Inr s1 \<Rightarrow>
             (case py_strftime E (earlier_than f) of
                Inl e \<Rightarrow> Inl e
              | Inr s2 \<Rightarrow> Inr (lbl @ ''('' @ s1 @ '' < n < '' @ s2 @ ''): '')))
      else Inr (lbl @ '': ''))"

definition DateField_formatted_input ::
  "'a builtins \<Rightarrow> date_field \<Rightarrow> 'a terminal \<Rightarrow> ('a exn + string) \<times> 'a terminal" where
  "DateField_formatted_input E f t = formatted_input (DateField_prompt E f) t"

text \<open>
  \<open>_InputField.render\<close>: the loop has no bound, so the function is partial; \<open>None\<close>
  is a run that never leaves the loop. \<open>fmt\<close> and \<open>setv\<close> are
  \<open>self._formatted_input\<close> and the setter of \<open>self.value\<close>. The \<open>try\<close> covers both
  calls: a \<open>ValidateError\<close> of either is printed and the loop goes on, any other
  exception leaves \<open>render\<close>.
\<close>

partial_function (option) InputField_render ::
  "('f \<Rightarrow> 'a terminal \<Rightarrow> ('a exn + string) \<times> 'a terminal) \<Rightarrow>
   ('f \<Rightarrow> string \<Rightarrow> 'a exn option \<times> 'f) \<Rightarrow> 'f \<Rightarrow> 'a terminal \<Rightarrow>
   ('a exn option \<times> 'f \<times> 'a terminal) option" where
  "InputField_render fmt setv f t =
     (case fmt f t of
        (Inl (ValidateError ve), t1) \<Rightarrow> InputField_render fmt setv f (print_error ve t1)
      | (Inl e, t1) \<Rightarrow> Some (Some e, f, t1)
      | (Inr v, t1) \<Rightarrow>
          (case setv f v of
             (None, f1) \<Rightarrow> Some (None, f1, t1)
           | (Some (ValidateError ve), f1) \<Rightarrow> InputField_render fmt setv f1 (print_error ve t1)
           | (Some e, f1) \<Rightarrow> Some (Some e, f1, t1)))"

section \<open>\<open>OutputField\<close> and the fields of a form\<close>

text \<open>
  \<open>OutputField\<close> has no constructor of its own: \<open>label\<close> exists only once the
  caller has assigned it (\<open>None\<close> here: never assigned). \<open>render\<close> reads it and
  returns a text that \<open>Form.show\<close> drops, so only its outcome is kept.
\<close>

record 'a output_field =
  out_value :: "'a pyval"
  out_label :: "string option"

definition OutputField_render :: "'a output_field \<Rightarrow> 'a exn option" where
  "OutputField_render f = (case out_label f of None \<Rightarrow> Some AttributeError | Some l \<Rightarrow> None)"

datatype 'a field =
    NumericF "'a numeric_field"
  | StringF string_field
  | DateF date_field
  | OutputF "'a output_field"

fun is_input :: "'a field \<Rightarrow> bool" where
  "is_input (OutputF f) = False"
| "is_input fld = True"

text \<open>The attribute \<open>_value\<close> of a field, as a Python value.\<close>

fun stored_value :: "'a field \<Rightarrow> 'a pyval" where
  "stored_value (NumericF f) = (case priv_value f of None \<Rightarrow> PNone | Some v \<Rightarrow> PNum v)"
| "stored_value (StringF f) = (case priv_value f of None \<Rightarrow> PNone | Some v \<Rightarrow> PStr v)"
| "stored_value (DateF f) = (case priv_value f of None \<Rightarrow> PNone | Some v \<Rightarrow> PDate v)"
| "stored_value (OutputF f) = out_value f"

text \<open>
  Reading \<open>value\<close>: \<open>FloatField\<close> rounds (\<open>round(None, n)\<close> raises \<open>TypeError\<close>),
  \<open>HashedField\<close> hashes, the others return \<open>_value\<close>.
\<close>

fun field_value :: "'a builtins \<Rightarrow> 'a field \<Rightarrow> 'a exn + 'a pyval" where
  "field_value E (NumericF f) =
     (case num_class f of
        IntegerField \<Rightarrow> Inr (stored_value (NumericF f))
      | FloatField m \<Rightarrow>
          (case priv_value f of
             None \<Rightarrow> Inl TypeError
           | Some v \<Rightarrow> Inr (PNum (py_round E v m))))"
| "field_value E (StringF f) =
     (case str_class f of
        HashedField \<Rightarrow> Inr (PNum (py_hash E (priv_value f)))
      | _ \<Rightarrow> Inr (stored_value (StringF f)))"
| "field_value E fld = Inr (stored_value fld)"

text \<open>Assigning to \<open>value\<close>; \<open>OutputField\<close> has no setter, the assignment raises.\<close>

fun field_set_value ::
  "'a::linordered_idom builtins \<Rightarrow> 'a field \<Rightarrow> string \<Rightarrow> 'a exn option \<times> 'a field" where
  "field_set_value E (NumericF f) raw = map_prod id NumericF (NumericField_set_value E f raw)"
| "field_set_value E (StringF f) raw = map_prod id StringF (StringField_set_value E f raw)"
| "field_set_value E (DateF f) raw = map_prod id DateF (DateField_set_value E f raw)"
| "field_set_value E (OutputF f) raw = (Some AttributeError, OutputF f)"

text \<open>
  What conversion and validation together make of a raw text: the converted value
  when both pass, \<open>None\<close> when either raises or returns an error.
\<close>

fun checked :: "'a::linordered_idom builtins \<Rightarrow> 'a field \<Rightarrow> string \<Rightarrow> 'a pyval option" where
  "checked E (NumericF f) raw =
     (case NumericField_convert_type E f raw of
        Inl e \<Rightarrow> None
      | Inr v \<Rightarrow> (if NumericField_validate f v = None then Some (PNum v) else None))"
| "checked E (StringF f) raw =
     (case (StringField_convert_type raw :: 'a exn + string) of
        Inl e \<Rightarrow> None
      | Inr v \<Rightarrow> (if string_validate E f v = None then Some (PStr v) else None))"
| "checked E (DateF f) raw =
     (case DateField_convert_type E raw of
        Inl e \<Rightarrow> None
      | Inr v \<Rightarrow> (if DateField_validate E f v = None then Some (PDate v) else None))"
| "checked E (OutputF f) raw = None"

fun in_field :: "('f \<Rightarrow> 'a field) \<Rightarrow> ('a exn option \<times> 'f \<times> 'a terminal) option \<Rightarrow>
    ('a exn option \<times> 'a field \<times> 'a terminal) option" where
  "in_field C None = None"
| "in_field C (Some (r, f, t)) = Some (r, C f, t)"

fun field_render ::
  "'a::linordered_idom builtins \<Rightarrow> 'a field \<Rightarrow> 'a terminal \<Rightarrow>
   ('a exn option \<times> 'a field \<times> 'a terminal) option" where
  "field_render E (NumericF f) t =
     in_field NumericF
       (InputField_render (NumericField_formatted_input E) (NumericField_set_value E) f t)"
| "field_render E (StringF f) t =
     in_field StringF
       (InputField_render (StringField_formatted_input E) (StringField_set_value E) f t)"
| "field_render E (DateF f) t =
     in_field DateF
       (InputField_render (DateField_formatted_input E) (DateField_set_value E) f t)"
| "field_render E (OutputF f) t = Some (OutputField_render f, OutputF f, t)"

text \<open>The prompt text of an input field, or the exception raised while building it.\<close>

fun field_prompt :: "'a::linordered_idom builtins \<Rightarrow> 'a field \<Rightarrow> 'a exn + string" where
  "field_prompt E (NumericF f) = NumericField_prompt E f"
| "field_prompt E (StringF f) = Inr (StringField_prompt E f)"
| "field_prompt E (DateF f) = DateField_prompt E f"
| "field_prompt E (OutputF f) = Inl AttributeError"

text \<open>
  A run of assignments to \<open>value\<close>, each in its own \<open>try\<close>: the field after the last
  one.
\<close>

fun assignments :: "'a::linordered_idom builtins \<Rightarrow> 'a field \<Rightarrow> string list \<Rightarrow> 'a field" where
  "assignments E fld [] = fld"
| "assignments E fld (raw # raws) = assignments E (snd (field_set_value E fld raw)) raws"

section \<open>\<open>Form\<close>\<close>

text \<open>
  \<open>form_name\<close> is only annotated in the class: it is an attribute of a form once a
  subclass or the caller has assigned it. \<open>form_fields\<close> lists the attributes that are
  fields, in the order of \<open>__dir__()\<close>, as \<open>__get_fields\<close> collects them.
\<close>

datatype 'x attribute = Missing | Attr 'x

record 'a form =
  form_name :: "string option attribute"
  form_fields :: "(string \<times> 'a field) list"

definition show_name :: "'a builtins \<Rightarrow> 'a form \<Rightarrow> 'a terminal \<Rightarrow> 'a exn option \<times> 'a terminal" where
  "show_name E F t =
     (case form_name F of
        Missing \<Rightarrow> (Some AttributeError, t)
      | Attr n \<Rightarrow>
          (if truthy_str n
           then (None, t\<lparr>stdout := stdout t @
                   [Line (''=========='' @ str_upper E (the n) @ ''=========='')]\<rparr>)
           else (None, t)))"

fun show_fields ::
  "'a::linordered_idom builtins \<Rightarrow> (string \<times> 'a field) list \<Rightarrow> (string \<rightharpoonup> 'a pyval) \<Rightarrow> 'a terminal \<Rightarrow>
   (('a exn + (string \<rightharpoonup> 'a pyval)) \<times> (string \<times> 'a field) list \<times> 'a terminal) option" where
  "show_fields E [] res t = Some (Inr res, [], t)"
| "show_fields E ((field_name, fld) # rest) res t =
     (case field_render E fld t of
        None \<Rightarrow> None
      | Some (Some e, fld1, t1) \<Rightarrow> Some (Inl e, (field_name, fld1) # rest, t1)
      | Some (None, fld1, t1) \<Rightarrow>
          (case field_value E fld1 of
             Inl e \<Rightarrow> Some (Inl e, (field_name, fld1) # rest, t1)
           | Inr v \<Rightarrow>
               (case show_fields E rest (res(field_name \<mapsto> v)) t1 of
                  None \<Rightarrow> None
                | Some (r, rest1, t2) \<Rightarrow> Some (r, (field_name, fld1) # rest1, t2))))"

definition Form_show ::
  "'a::linordered_idom builtins \<Rightarrow> 'a form \<Rightarrow> 'a terminal \<Rightarrow>
   (('a exn + (string \<rightharpoonup> 'a pyval)) \<times> 'a form \<times> 'a terminal) option" where
  "Form_show E F t =
     (case show_name E F t of
        (Some e, t1) \<Rightarrow> Some (Inl e, F, t1)
      | (None, t1) \<Rightarrow>
          (case show_fields E (form_fields F) Map.empty t1 of
             None \<Rightarrow> None
           | Some (r, fs, t2) \<Rightarrow> Some (r, F\<lparr>form_fields := fs\<rparr>, t2)))"

section \<open>An instance of the builtins, to run the model on examples\<close>

definition digit_of :: "char \<Rightarrow> nat option" where
  "digit_of c =
     (if c = CHR ''0'' then Some 0 else if c = CHR ''1'' then Some 1
      else if c = CHR ''2'' then Some 2 else if c = CHR ''3'' then Some 3
      else if c = CHR ''4'' then Some 4 else if c = CHR ''5'' then Some 5
      else if c = CHR ''6'' then Some 6 else if c = CHR ''7'' then Some 7
      else if c = CHR ''8'' then Some 8 else if c = CHR ''9'' then Some 9
      else None)"

fun dec_nat :: "string \<Rightarrow> nat \<Rightarrow> nat option" where
  "dec_nat [] acc = Some acc"
| "dec_nat (c # cs) acc =
     (case digit_of c of None \<Rightarrow> None | Some d \<Rightarrow> dec_nat cs (10 * acc + d))"

text \<open>Decimal integers with an optional minus sign.\<close>

definition dec_int :: "string \<Rightarrow> int option" where
  "dec_int s =
     (case s of
        [] \<Rightarrow> None
      | c # cs \<Rightarrow>
          (if c = CHR ''-'' then (if cs = [] then None else map_option (\<lambda>n. - int n) (dec_nat cs 0))
           else map_option int (dec_nat s 0)))"

text \<open>Dates written \<open>dd.mm.yyyy\<close>, with the day and the month in range.\<close>

definition dmy :: "string \<Rightarrow> datetime option" where
  "dmy s =
     (case s of
        [d1, d2, p, m1, m2, q, y1, y2, y3, y4] \<Rightarrow>
          (case (dec_nat [d1, d2] 0, dec_nat [m1, m2] 0, dec_nat [y1, y2, y3, y4] 0) of
             (Some d, Some m, Some y) \<Rightarrow>
               (if p = CHR ''.'' \<and> q = CHR ''.'' \<and> 1 \<le> d \<and> d \<le> 31 \<and> 1 \<le> m \<and> m \<le> 12 \<and> 1 \<le> y
                then Some (Datetime y m d 0) else None)
           | _ \<Rightarrow> None)
      | _ \<Rightarrow> None)"

text \<open>
  Templates with the fields \<open>{}\<close> and the doubled braces \<open>{{\<close> and \<open>}}\<close>; any
  other brace is answered with \<open>ValueError\<close>.
\<close>

fun fill :: "string \<Rightarrow> string list \<Rightarrow> format_error + string" where
  "fill [] args = Inr []"
| "fill [c] args = (if c = CHR ''{'' \<or> c = CHR ''}'' then Inl Format_ValueError else Inr [c])"
| "fill (c # d # cs) args =
     (if c = CHR ''{'' \<and> d = CHR ''}'' then
        (case args of
           [] \<Rightarrow> Inl Format_IndexError
         | a # rest \<Rightarrow> map_sum id ((@) a) (fill cs rest))
      else if (c = CHR ''{'' \<and> d = CHR ''{'') \<or> (c = CHR ''}'' \<and> d = CHR ''}'') then
        map_sum id ((#) c) (fill cs args)
      else if c = CHR ''{'' \<or> c = CHR ''}'' then Inl Format_ValueError
      else map_sum id ((#) c) (fill (d # cs) args))"

definition test_builtins :: "int builtins" where
  "test_builtins =
     \<lparr>py_int = dec_int, py_float = dec_int, py_round = (\<lambda>x n. x),
      py_hash = (\<lambda>s. case s of None \<Rightarrow> 0 | Some x \<Rightarrow> 1 + int (length x)),
      str_num = (\<lambda>x. ''n''), str_int = (\<lambda>x. ''n''),
      strptime = dmy, strftime = (\<lambda>d. ''d''),
      email_fullmatch = (\<lambda>s. CHR ''@'' \<in> set s), phone_fullmatch = (\<lambda>s. take 1 s = ''+''),
      str_upper = (\<lambda>s. s), py_format = fill, format_bold = (\<lambda>s. s)\<rparr>"

section \<open>Construction and validation of numeric fields\<close>

lemma NumericField_init_needs_both_bounds:
  "minv = None \<or> maxv = None \<Longrightarrow> NumericField_init c lbl maxv minv h = Inl TypeError"
  by (auto simp: NumericField_init_def py_gt_def split: option.splits)

text \<open>
  What \<open>_NumericField.validate\<close> accepts, for any bounds: a bound that is \<open>None\<close> or
  \<open>0\<close> is not checked, any other bound is checked strictly.
\<close>

lemma NumericField_validate_accepts:
  "NumericField_validate f v = None \<longleftrightarrow>
     (case (min_value f, max_value f) of
        (Some a, Some b) \<Rightarrow> (a = 0 \<or> a < v) \<and> (b = 0 \<or> v < b)
      | (Some a, None) \<Rightarrow> a = 0 \<or> a < v
      | (None, Some b) \<Rightarrow> b = 0 \<or> v < b
      | (None, None) \<Rightarrow> True)"
  by (auto simp: NumericField_validate_def truthy_num_def InputField_validate_def
      split: option.splits)

text \<open>
  Claim C1 (numeric fields can be constructed with one bound or with none). The
  constructor compares \<open>self.min_value > self.max_value\<close> before anything else, and
  with a bound left at its default \<open>None\<close> that comparison raises \<open>TypeError\<close>: the
  construction of the test suite's \<open>FloatField(label='TestFloatField')\<close> fails, and so
  does every construction with a single bound.
\<close>

theorem NumericField_init_default_bounds_raise:
  "(FloatField_init ''TestFloatField'' 2 None None None :: int exn + int numeric_field) = Inl TypeError
   \<and> (IntegerField_init ''Age'' None None None :: int exn + int numeric_field) = Inl TypeError
   \<and> (IntegerField_init ''Age'' None (Some 18) None :: int exn + int numeric_field) = Inl TypeError
   \<and> (IntegerField_init ''Age'' (Some 120) None None :: int exn + int numeric_field) = Inl TypeError"
  by (simp add: IntegerField_init_def FloatField_init_def NumericField_init_def py_gt_def)

text \<open>
  Claim C3 (a bound that is set is checked strictly). A bound equal to \<open>0\<close> is set
  but falsy, and \<open>validate\<close> selects its branch by truthiness: \<open>IntegerField\<close> with
  \<open>min_value = 0\<close> and \<open>max_value = 10\<close> accepts \<open>-5\<close>, also through the setter, and
  with \<open>min_value = -10\<close> and \<open>max_value = 0\<close> it accepts \<open>5\<close>.
\<close>

theorem NumericField_validate_ignores_zero_bound:
  "(IntegerField_init ''n'' (Some 10) (Some 0) None :: int exn + int numeric_field) =
     Inr \<lparr>priv_value = None, label = ''n'', hint = None,
          min_value = Some 0, max_value = Some 10, num_class = IntegerField\<rparr>
   \<and> NumericField_validate
       \<lparr>priv_value = None, label = ''n'', hint = None,
        min_value = Some 0, max_value = Some (10::int), num_class = IntegerField\<rparr> (- 5) = None
   \<and> NumericField_set_value test_builtins
       \<lparr>priv_value = None, label = ''n'', hint = None,
        min_value = Some 0, max_value = Some 10, num_class = IntegerField\<rparr> ''-5''
     = (None, \<lparr>priv_value = Some (- 5), label = ''n'', hint = None,
               min_value = Some 0, max_value = Some 10, num_class = IntegerField\<rparr>)
   \<and> (IntegerField_init ''n'' (Some 0) (Some (- 10)) None :: int exn + int numeric_field) =
     Inr \<lparr>priv_value = None, label = ''n'', hint = None,
          min_value = Some (- 10), max_value = Some 0, num_class = IntegerField\<rparr>
   \<and> NumericField_validate
       \<lparr>priv_value = None, label = ''n'', hint = None,
        min_value = Some (- 10), max_value = Some (0::int), num_class = IntegerField\<rparr> 5 = None"
  by (simp add: IntegerField_init_def NumericField_init_def py_gt_def NumericField_validate_def
      truthy_num_def InputField_validate_def NumericField_set_value_def InputField_set_value_def
      NumericField_convert_type_def InputField_convert_type_def test_builtins_def dec_int_def
      digit_of_def)

text \<open>
  Claim C4, as amended: a numeric field constructed with \<open>min_value = 0\<close> and a
  positive \<open>max_value\<close> keeps both bounds as given and accepts a value \<open>v\<close> exactly
  when \<open>v < max_value\<close>; no lower bound is checked.
\<close>

theorem NumericField_zero_min_positive_max:
  "0 < mx \<Longrightarrow>
     \<exists>f. NumericField_init c lbl (Some mx) (Some 0) h = Inr f
       \<and> min_value f = Some 0 \<and> max_value f = Some mx
       \<and> (\<forall>v. (NumericField_validate f v = None) = (v < mx))"
  by (auto simp: NumericField_init_def py_gt_def NumericField_validate_def truthy_num_def
      InputField_validate_def)

theorem NumericField_zero_min_positive_max_witness:
  "(0::int) < 10
   \<and> NumericField_init IntegerField ''n'' (Some 10) (Some 0) None =
       Inr \<lparr>priv_value = None, label = ''n'', hint = None,
            min_value = Some 0, max_value = Some (10::int), num_class = IntegerField\<rparr>
   \<and> NumericField_validate
       \<lparr>priv_value = None, label = ''n'', hint = None,
        min_value = Some 0, max_value = Some (10::int), num_class = IntegerField\<rparr> (- 5) = None
   \<and> NumericField_validate
       \<lparr>priv_value = None, label = ''n'', hint = None,
        min_value = Some 0, max_value = Some (10::int), num_class = IntegerField\<rparr> 10 \<noteq> None"
  using NumericField_zero_min_positive_max [of "10::int" IntegerField "''n''" None]
  by (auto simp: NumericField_init_def py_gt_def)

text \<open>
  Claim C4 as stated fails for a \<open>max_value\<close> that is not positive. With
  \<open>max_value = -5\<close> the constructor repairs \<open>min_value\<close> to \<open>-7\<close>, both bounds are
  checked and \<open>-10\<close>, which is below \<open>max_value\<close>, is rejected; with
  \<open>max_value = 0\<close> no bound is checked and \<open>5\<close>, which is not below \<open>max_value\<close>, is
  accepted.
\<close>

theorem NumericField_zero_min_counterexample:
  "(IntegerField_init ''n'' (Some (- 5)) (Some 0) None :: int exn + int numeric_field) =
     Inr \<lparr>priv_value = None, label = ''n'', hint = None,
          min_value = Some (- 7), max_value = Some (- 5), num_class = IntegerField\<rparr>
   \<and> (- 10 :: int) < - 5
   \<and> NumericField_validate
       \<lparr>priv_value = None, label = ''n'', hint = None,
        min_value = Some (- 7), max_value = Some (- 5 :: int), num_class = IntegerField\<rparr> (- 10)
     = Some (Outside (- 7) (- 10) (- 5))
   \<and> (IntegerField_init ''n'' (Some 0) (Some 0) None :: int exn + int numeric_field) =
     Inr \<lparr>priv_value = None, label = ''n'', hint = None,
          min_value = Some 0, max_value = Some 0, num_class = IntegerField\<rparr>
   \<and> \<not> (5 :: int) < 0
   \<and> NumericField_validate
       \<lparr>priv_value = None, label = ''n'', hint = None,
        min_value = Some 0, max_value = Some (0::int), num_class = IntegerField\<rparr> 5 = None"
  by (simp add: IntegerField_init_def NumericField_init_def py_gt_def NumericField_validate_def
      truthy_num_def InputField_validate_def)

text \<open>
  Claim C5: when both bounds are given and \<open>min_value > max_value\<close>, construction
  succeeds; the field holds \<open>min_value = max_value - 2\<close> and \<open>max_value\<close> as given.
\<close>

theorem NumericField_init_repairs_min_value:
  "mx < mn \<Longrightarrow>
     NumericField_init c lbl (Some mx) (Some mn) h =
       Inr \<lparr>priv_value = None, label = lbl, hint = h,
            min_value = Some (mx - 2), max_value = Some mx, num_class = c\<rparr>"
  by (simp add: NumericField_init_def py_gt_def)

theorem NumericField_init_repairs_min_value_witness:
  "(3::int) < 10
   \<and> NumericField_init IntegerField ''n'' (Some 3) (Some 10) None =
       Inr \<lparr>priv_value = None, label = ''n'', hint = None,
            min_value = Some (1::int), max_value = Some 3, num_class = IntegerField\<rparr>"
  using NumericField_init_repairs_min_value [of "3::int" 10 IntegerField "''n''" None]
  by simp

section \<open>Date fields\<close>

text \<open>
  Claim C6: \<open>DateField\<close> construction raises exactly when both bounds are given and
  \<open>later_than < earlier_than\<close> fails, and what it raises is \<open>ValueError\<close>, not a
  \<open>ValidateError\<close>. With \<open>later_than < earlier_than\<close> it returns a field whose
  \<open>validate\<close> accepts a date \<open>v\<close> exactly when \<open>later_than < v < earlier_than\<close>, and
  whose setter stores a raw text exactly when it parses to such a date.
\<close>

theorem DateField_init_interval:
  "((\<exists>e. (DateField_init lbl et lt h :: 'a exn + date_field) = Inl e) \<longleftrightarrow>
      (\<exists>a b. et = Some a \<and> lt = Some b \<and> \<not> dt_less b a))
   \<and> (\<forall>e. (DateField_init lbl et lt h :: 'a exn + date_field) = Inl e \<longrightarrow> e = ValueError)
   \<and> (\<forall>a b. et = Some a \<and> lt = Some b \<and> dt_less b a \<longrightarrow>
        (\<exists>f. (DateField_init lbl et lt h :: 'a exn + date_field) = Inr f
           \<and> earlier_than f = Some a \<and> later_than f = Some b
           \<and> (\<forall>E v. ((DateField_validate E f v :: 'a validate_error option) = None) =
                (dt_less b v \<and> dt_less v a))
           \<and> (\<forall>E raw. (fst (DateField_set_value E f raw :: 'a exn option \<times> date_field) = None) =
                (\<exists>v. strptime E raw = Some v \<and> dt_less b v \<and> dt_less v a))))"
  by (auto simp: DateField_init_def truthy_dt_def DateField_validate_def InputField_validate_def
      DateField_set_value_def InputField_set_value_def DateField_convert_type_def Let_def
      split: option.splits sum.splits)

theorem DateField_init_interval_witness:
  "dt_less (Datetime 2019 1 1 0) (Datetime 2020 1 1 0)
   \<and> (DateField_init ''Born'' (Some (Datetime 2020 1 1 0)) (Some (Datetime 2019 1 1 0)) None
        :: int exn + date_field) =
       Inr \<lparr>priv_value = None, label = ''Born'', hint = None,
            earlier_than = Some (Datetime 2020 1 1 0), later_than = Some (Datetime 2019 1 1 0)\<rparr>
   \<and> (DateField_init ''Born'' (Some (Datetime 2020 1 1 0)) (Some (Datetime 2021 1 1 0)) None
        :: int exn + date_field) = Inl ValueError
   \<and> fst (DateField_set_value test_builtins
        \<lparr>priv_value = None, label = ''Born'', hint = None,
         earlier_than = Some (Datetime 2020 1 1 0), later_than = Some (Datetime 2019 1 1 0)\<rparr>
        ''15.06.2019'') = None
   \<and> fst (DateField_set_value test_builtins
        \<lparr>priv_value = None, label = ''Born'', hint = None,
         earlier_than = Some (Datetime 2020 1 1 0), later_than = Some (Datetime 2019 1 1 0)\<rparr>
        ''01.01.2020'') \<noteq> None"
  using DateField_init_interval [where 'a = int, of "''Born''" "Some (Datetime 2020 1 1 0)"
          "Some (Datetime 2019 1 1 0)" None]
        DateField_init_interval [where 'a = int, of "''Born''" "Some (Datetime 2020 1 1 0)"
          "Some (Datetime 2021 1 1 0)" None]
  by (simp add: DateField_init_def truthy_dt_def test_builtins_def dmy_def digit_of_def)

text \<open>
  Claim C10: a \<open>DateField\<close> constructed with \<open>later_than\<close> alone and no hint is
  constructed, and its \<open>_formatted_input\<close> raises \<open>AttributeError\<close> with the terminal
  untouched: nothing is written, no line is read. \<open>render\<close> ends with that exception
  on every terminal and leaves the field as it was, so no later call can do better.
\<close>

theorem DateField_later_than_only_cannot_render:
  "\<not> truthy_str h \<Longrightarrow>
     \<exists>f. (DateField_init lbl None (Some lt) h :: 'a exn + date_field) = Inr f
       \<and> later_than f = Some lt \<and> earlier_than f = None
       \<and> (\<forall>(E :: 'a::linordered_idom builtins) t.
             DateField_formatted_input E f t = (Inl AttributeError, t)
           \<and> field_render E (DateF f) t = Some (Some AttributeError, DateF f, t))"
  apply (simp add: DateField_init_def truthy_dt_def)
  apply (subst InputField_render.simps)
  apply (simp add: DateField_formatted_input_def formatted_input_def DateField_prompt_def
      truthy_dt_def py_strftime_def Let_def)
  done

theorem DateField_later_than_only_cannot_render_witness:
  "\<not> truthy_str None
   \<and> (DateField_init ''Start'' None (Some (Datetime 2019 1 1 0)) None :: int exn + date_field) =
       Inr \<lparr>priv_value = None, label = ''Start'', hint = None, earlier_than = None,
            later_than = Some (Datetime 2019 1 1 0)\<rparr>
   \<and> field_render test_builtins
        (DateF \<lparr>priv_value = None, label = ''Start'', hint = None, earlier_than = None,
                later_than = Some (Datetime 2019 1 1 0)\<rparr>)
        \<lparr>stdin = [''15.06.2019''], stdout = []\<rparr>
      = Some (Some AttributeError,
              DateF \<lparr>priv_value = None, label = ''Start'', hint = None, earlier_than = None,
                     later_than = Some (Datetime 2019 1 1 0)\<rparr>,
              \<lparr>stdin = [''15.06.2019''], stdout = []\<rparr>)"
proof -
  have a: "\<not> truthy_str None" by (simp add: truthy_str_def)
  show ?thesis
    using a DateField_later_than_only_cannot_render [OF a, where 'a = int, of "''Start''"
        "Datetime 2019 1 1 0"]
    by (auto simp: DateField_init_def truthy_dt_def)
qed

section \<open>Hashed fields\<close>

text \<open>
  Claim C9: once a \<open>HashedField\<close> has stored a raw string \<open>s\<close>, reading \<open>value\<close>
  returns \<open>hash(s)\<close>, a number, and never the string \<open>s\<close>.
\<close>

theorem HashedField_value_is_hash:
  "str_class f = HashedField \<Longrightarrow> StringField_set_value E f s = (None, f') \<Longrightarrow>
     stored_value (StringF f') = PStr s
     \<and> field_value E (StringF f') = Inr (PNum (py_hash E (Some s)))
     \<and> field_value E (StringF f') \<noteq> Inr (PStr s)"
  by (auto simp: StringField_set_value_def InputField_set_value_def StringField_convert_type_def
      InputField_convert_type_def split: option.splits)

theorem HashedField_value_is_hash_witness:
  "str_class (StringField_init HashedField ''Password'' None (Some DEFAULT_MAX_LENGTH)) = HashedField
   \<and> StringField_set_value test_builtins
        (StringField_init HashedField ''Password'' None (Some DEFAULT_MAX_LENGTH)) ''secret''
       = (None, (StringField_init HashedField ''Password'' None (Some DEFAULT_MAX_LENGTH))
                   \<lparr>priv_value := Some ''secret''\<rparr>)
   \<and> field_value test_builtins
        (StringF ((StringField_init HashedField ''Password'' None (Some DEFAULT_MAX_LENGTH))
                    \<lparr>priv_value := Some ''secret''\<rparr>))
       = Inr (PNum 7)
   \<and> field_value test_builtins
        (StringF ((StringField_init HashedField ''Password'' None (Some DEFAULT_MAX_LENGTH))
                    \<lparr>priv_value := Some ''secret''\<rparr>))
       \<noteq> Inr (PStr ''secret'')"
proof -
  have a: "str_class (StringField_init HashedField ''Password'' None (Some DEFAULT_MAX_LENGTH)) = HashedField"
    by (simp add: StringField_init_def)
  have b: "StringField_set_value test_builtins
        (StringField_init HashedField ''Password'' None (Some DEFAULT_MAX_LENGTH)) ''secret''
       = (None, (StringField_init HashedField ''Password'' None (Some DEFAULT_MAX_LENGTH))
                   \<lparr>priv_value := Some ''secret''\<rparr>)"
    by (simp add: StringField_init_def StringField_set_value_def InputField_set_value_def
        StringField_convert_type_def InputField_convert_type_def string_validate_def
        StringField_validate_def truthy_int_def InputField_validate_def DEFAULT_MAX_LENGTH_def)
  show ?thesis
    using a b HashedField_value_is_hash [OF a b] by (simp add: test_builtins_def)
qed

section \<open>The gate of \<open>value\<close> and the render loop\<close>

lemma NumericField_frame:
  "NumericField_validate (f\<lparr>priv_value := x\<rparr>) = NumericField_validate f"
  "NumericField_convert_type E (f\<lparr>priv_value := x\<rparr>) = NumericField_convert_type E f"
  "NumericField_prompt E (f\<lparr>priv_value := x\<rparr>) = NumericField_prompt E f"
  by (simp_all add: fun_eq_iff NumericField_validate_def NumericField_convert_type_def
      NumericField_prompt_def Let_def)

lemma StringField_frame:
  "string_validate E (g\<lparr>priv_value := y\<rparr>) = string_validate E g"
  "StringField_prompt E (g\<lparr>priv_value := y\<rparr>) = StringField_prompt E g"
  by (simp_all add: fun_eq_iff string_validate_def StringField_validate_def
      EmailField_validate_def PhoneNumberField_validate_def StringField_prompt_def
      split: string_class.splits)

lemma DateField_frame:
  "DateField_validate E (d\<lparr>priv_value := z\<rparr>) = DateField_validate E d"
  "DateField_prompt E (d\<lparr>priv_value := z\<rparr>) = DateField_prompt E d"
  by (simp_all add: fun_eq_iff DateField_validate_def DateField_prompt_def Let_def
      cong: sum.case_cong)

lemma field_set_value_cases:
  assumes inp: "is_input fld"
  shows "(\<exists>v fld'. checked E fld raw = Some v \<and> field_set_value E fld raw = (None, fld')
         \<and> stored_value fld' = v \<and> is_input fld' \<and> checked E fld' = checked E fld
         \<and> field_prompt E fld' = field_prompt E fld)
   \<or> (\<exists>ve. checked E fld raw = None \<and> field_set_value E fld raw = (Some (ValidateError ve), fld))"
proof (cases fld)
  case (NumericF f)
  show ?thesis
    unfolding NumericF
    by (auto simp: NumericField_set_value_def InputField_set_value_def NumericField_frame
      fun_eq_iff NumericField_convert_type_def InputField_convert_type_def
      split: sum.splits option.splits)
next
  case (StringF f)
  show ?thesis
    unfolding StringF
    by (auto simp: StringField_set_value_def InputField_set_value_def StringField_frame
      fun_eq_iff StringField_convert_type_def InputField_convert_type_def
      split: sum.splits option.splits)
next
  case (DateF f)
  show ?thesis
    unfolding DateF
    by (auto simp: DateField_set_value_def InputField_set_value_def DateField_frame
      fun_eq_iff DateField_convert_type_def
      split: sum.splits option.splits)
next
  case (OutputF f)
  with inp show ?thesis by simp
qed

lemma assignments_last:
  "is_input fld \<Longrightarrow>
     stored_value (assignments E fld raws) = last (stored_value fld # List.map_filter (checked E fld) raws)
     \<and> is_input (assignments E fld raws)"
proof (induction raws arbitrary: fld)
  case Nil
  then show ?case by simp
next
  case (Cons raw raws)
  from field_set_value_cases[OF Cons.prems, of E raw]
  show ?case
  proof
    assume "\<exists>v fld'. checked E fld raw = Some v \<and> field_set_value E fld raw = (None, fld')
         \<and> stored_value fld' = v \<and> is_input fld' \<and> checked E fld' = checked E fld
         \<and> field_prompt E fld' = field_prompt E fld"
    then obtain v fld' where h: "checked E fld raw = Some v" "field_set_value E fld raw = (None, fld')"
       "stored_value fld' = v" "is_input fld'" "checked E fld' = checked E fld" by blast
    from Cons.IH[OF h(4)] h show ?thesis by simp
  next
    assume "\<exists>ve. checked E fld raw = None \<and> field_set_value E fld raw = (Some (ValidateError ve), fld)"
    then obtain ve where h: "checked E fld raw = None" "field_set_value E fld raw = (Some (ValidateError ve), fld)"
      by blast
    from Cons.IH[OF Cons.prems] h show ?thesis by simp
  qed
qed

lemmas eval_defs =
  NumericField_set_value_def InputField_set_value_def NumericField_convert_type_def
  InputField_convert_type_def NumericField_validate_def truthy_num_def InputField_validate_def
  test_builtins_def dec_int_def digit_of_def

lemmas prompt_defs =
  NumericField_formatted_input_def formatted_input_def input_def print_error_def
  NumericField_prompt_def truthy_str_def str_format_def

text \<open>
  Claim C2: assigning a raw text to \<open>value\<close> of an input field either returns
  normally, and then the text passed conversion and validation and the converted value
  is what the field stores, or raises a \<open>ValidateError\<close> and leaves the field as it
  was. After any run of assignments the stored value is the last value that passed
  both, or what the field held before the run when none did.
\<close>

theorem value_assignment_gate:
  "is_input fld \<Longrightarrow>
     ((\<exists>v fld'. checked E fld raw = Some v \<and> field_set_value E fld raw = (None, fld')
          \<and> stored_value fld' = v)
      \<or> (\<exists>ve. checked E fld raw = None
          \<and> field_set_value E fld raw = (Some (ValidateError ve), fld)))
     \<and> stored_value (assignments E fld raws) =
         last (stored_value fld # List.map_filter (checked E fld) raws)"
  using field_set_value_cases[of fld E raw] assignments_last[of fld E raws] by blast


theorem value_assignment_gate_witness:
  "is_input (NumericF \<lparr>priv_value = None, label = ''Age'', hint = None,
        min_value = Some 1, max_value = Some 120, num_class = IntegerField\<rparr>)
   \<and> field_set_value test_builtins
       (NumericF \<lparr>priv_value = None, label = ''Age'', hint = None,
        min_value = Some 1, max_value = Some 120, num_class = IntegerField\<rparr>) ''30''
     = (None, NumericF \<lparr>priv_value = Some 30, label = ''Age'', hint = None,
        min_value = Some 1, max_value = Some 120, num_class = IntegerField\<rparr>)
   \<and> field_set_value test_builtins
       (NumericF \<lparr>priv_value = None, label = ''Age'', hint = None,
        min_value = Some 1, max_value = Some 120, num_class = IntegerField\<rparr>) ''500''
     = (Some (ValidateError (Outside 1 500 120)),
        NumericF \<lparr>priv_value = None, label = ''Age'', hint = None,
        min_value = Some 1, max_value = Some 120, num_class = IntegerField\<rparr>)
   \<and> stored_value (assignments test_builtins
       (NumericF \<lparr>priv_value = None, label = ''Age'', hint = None,
        min_value = Some 1, max_value = Some 120, num_class = IntegerField\<rparr>)
       [''abc'', ''30'', ''500'']) = PNum 30"
proof -
  have a: "is_input (NumericF \<lparr>priv_value = None, label = ''Age'', hint = None,
        min_value = Some 1, max_value = Some (120::int), num_class = IntegerField\<rparr>)"
    by simp
  note g = value_assignment_gate [OF a, of test_builtins]
  show ?thesis
    using a g [of "''30''" "[''abc'', ''30'', ''500'']"] g [of "''500''" "[]"]
    by (simp add: eval_defs)
qed

lemma InputField_render_prompt_raises:
  assumes "\<And>t. fmt f t = formatted_input (Inl e) t" and "\<And>ve. e \<noteq> ValidateError ve"
  shows "InputField_render fmt setv f t = Some (Some e, f, t)"
  using assms
  by (subst InputField_render.simps) (simp add: formatted_input_def split: exn.splits)

lemma InputField_render_input:
  assumes fmt: "\<And>t. fmt f t = formatted_input (Inr p) t"
    and setv: "\<And>raw. fst (setv f raw) = None \<or> (\<exists>ve. setv f raw = (Some (ValidateError ve), f))"
  shows "\<exists>r f' t' pre ves. InputField_render fmt setv f t = Some (r, f', t')
     \<and> map (\<lambda>x. fst (setv f x)) pre = map (\<lambda>ve. Some (ValidateError ve)) ves
     \<and> stdout t' = stdout t @ concat (map (\<lambda>ve. [Prompt p, Error_line ve]) ves) @ [Prompt p]
     \<and> ((r = Some EOFError \<and> f' = f \<and> stdin t = pre \<and> stdin t' = [])
        \<or> (r = None \<and> (\<exists>l. stdin t = pre @ l # stdin t' \<and> setv f l = (None, f'))))"
proof (induction "stdin t" arbitrary: t)
  case Nil
  have "InputField_render fmt setv f t = Some (Some EOFError, f, t\<lparr>stdout := stdout t @ [Prompt p]\<rparr>)"
    using Nil by (subst InputField_render.simps) (simp add: fmt formatted_input_def input_def)
  then show ?case using Nil
    by (intro exI[of _ "Some EOFError"] exI[of _ f] exI[of _ "t\<lparr>stdout := stdout t @ [Prompt p]\<rparr>"]
        exI[of _ "[]"]) simp
next
  case (Cons l ls)
  have st: "stdin t = l # ls" using Cons.hyps(2) by simp
  define t1 where "t1 = t\<lparr>stdin := ls, stdout := stdout t @ [Prompt p]\<rparr>"
  have inp: "fmt f t = (Inr l, t1)"
    using st by (simp add: fmt formatted_input_def input_def t1_def)
  from setv[of l] show ?case
  proof
    assume ok: "fst (setv f l) = None"
    then obtain f1 where f1: "setv f l = (None, f1)" by (cases "setv f l") auto
    have "InputField_render fmt setv f t = Some (None, f1, t1)"
      by (subst InputField_render.simps) (simp add: inp f1)
    then show ?thesis using st f1
      by (intro exI[of _ None] exI[of _ f1] exI[of _ t1] exI[of _ "[]"]) (simp add: t1_def)
  next
    assume "\<exists>ve. setv f l = (Some (ValidateError ve), f)"
    then obtain ve where ve: "setv f l = (Some (ValidateError ve), f)" by blast
    define t2 where "t2 = print_error ve t1"
    have step: "InputField_render fmt setv f t = InputField_render fmt setv f t2"
      by (subst InputField_render.simps) (simp add: inp ve t2_def)
    have "ls = stdin t2" by (simp add: t2_def t1_def print_error_def)
    from Cons.hyps(1)[OF this]
    obtain r f' t' pre ves where IH:
      "InputField_render fmt setv f t2 = Some (r, f', t')"
      "map (\<lambda>x. fst (setv f x)) pre = map (\<lambda>ve. Some (ValidateError ve)) ves"
      "stdout t' = stdout t2 @ concat (map (\<lambda>ve. [Prompt p, Error_line ve]) ves) @ [Prompt p]"
      "(r = Some EOFError \<and> f' = f \<and> stdin t2 = pre \<and> stdin t' = [])
        \<or> (r = None \<and> (\<exists>l. stdin t2 = pre @ l # stdin t' \<and> setv f l = (None, f')))"
      by blast
    have out: "stdout t2 = stdout t @ [Prompt p, Error_line ve]"
      by (simp add: t2_def t1_def print_error_def)
    have in2: "stdin t = l # stdin t2"
      using st by (simp add: t2_def t1_def print_error_def)
    show ?thesis
      using IH ve step out in2
      by (intro exI[of _ r] exI[of _ f'] exI[of _ t'] exI[of _ "l # pre"] exI[of _ "ve # ves"])
         auto
  qed
qed


lemma map_eq_imageD:
  assumes "map g xs = map h ys" and "x \<in> set xs"
  shows "\<exists>y. g x = h y"
proof -
  have "g ` set xs = h ` set ys" using assms(1) by (metis set_map)
  then show ?thesis using assms(2) by blast
qed

lemma render_via:
  assumes rend: "\<And>t. field_render E (C f) t = in_field C (InputField_render fmt setv f t)"
    and setv: "\<And>x. field_set_value E (C f) x = map_prod id C (setv f x)"
    and fmt: "\<And>t. fmt f t = formatted_input (field_prompt E (C f)) t"
    and perr: "\<And>e ve. field_prompt E (C f) = Inl e \<Longrightarrow> e \<noteq> ValidateError ve"
    and inp: "is_input (C f)"
    and inj: "\<And>a b. C a = C b \<Longrightarrow> a = b"
  shows "\<exists>r fld' t'. field_render E (C f) t = Some (r, fld', t')
    \<and> (\<forall>ve. r \<noteq> Some (ValidateError ve))
    \<and> ((r = None) = ((\<exists>p. field_prompt E (C f) = Inr p) \<and> (\<exists>l\<in>set (stdin t). checked E (C f) l \<noteq> None)))
    \<and> (r = None \<longrightarrow> (\<exists>pre l ves p v. stdin t = pre @ l # stdin t' \<and> field_prompt E (C f) = Inr p
          \<and> map (\<lambda>x. fst (field_set_value E (C f) x)) pre = map (\<lambda>ve. Some (ValidateError ve)) ves
          \<and> stdout t' = stdout t @ concat (map (\<lambda>ve. [Prompt p, Error_line ve]) ves) @ [Prompt p]
          \<and> field_set_value E (C f) l = (None, fld') \<and> checked E (C f) l = Some v
          \<and> stored_value fld' = v))
    \<and> (r \<noteq> None \<longrightarrow> fld' = C f)
    \<and> (\<forall>e. field_prompt E (C f) = Inl e \<longrightarrow> r = Some e \<and> t' = t)"
proof (cases "field_prompt E (C f)")
  case (Inl e)
  then have e: "e \<noteq> ValidateError ve" for ve by (rule perr)
  have "InputField_render fmt setv f t = Some (Some e, f, t)"
    by (rule InputField_render_prompt_raises) (simp_all add: fmt Inl e)
  then show ?thesis using Inl e by (simp add: rend)
next
  case (Inr p)
  have sv: "fst (setv f raw) = None \<or> (\<exists>ve. setv f raw = (Some (ValidateError ve), f))" for raw
    using field_set_value_cases[OF inp, of E raw] inj
    by (cases "setv f raw") (auto simp: setv)
  from InputField_render_input[of fmt f p setv t, OF _ sv]
  obtain r f' t' pre ves where R:
      "InputField_render fmt setv f t = Some (r, f', t')"
      "map (\<lambda>x. fst (setv f x)) pre = map (\<lambda>ve. Some (ValidateError ve)) ves"
      "stdout t' = stdout t @ concat (map (\<lambda>ve. [Prompt p, Error_line ve]) ves) @ [Prompt p]"
      "(r = Some EOFError \<and> f' = f \<and> stdin t = pre \<and> stdin t' = [])
        \<or> (r = None \<and> (\<exists>l. stdin t = pre @ l # stdin t' \<and> setv f l = (None, f')))"
    using fmt Inr by auto
  have rej: "checked E (C f) x = None" if "x \<in> set pre" for x
  proof -
    from map_eq_imageD[OF R(2) that] obtain ve where "fst (setv f x) = Some (ValidateError ve)"
      by blast
    then have "fst (field_set_value E (C f) x) \<noteq> None" by (simp add: setv)
    then show ?thesis using field_set_value_cases[OF inp, of E x] by auto
  qed
  have pre: "map (\<lambda>x. fst (field_set_value E (C f) x)) pre = map (\<lambda>ve. Some (ValidateError ve)) ves"
    using R(2) by (simp add: setv)
  from R(4) show ?thesis
  proof
    assume eof: "r = Some EOFError \<and> f' = f \<and> stdin t = pre \<and> stdin t' = []"
    then show ?thesis using R(1) rej Inr by (simp add: rend)
  next
    assume "r = None \<and> (\<exists>l. stdin t = pre @ l # stdin t' \<and> setv f l = (None, f'))"
    then obtain l where l: "r = None" "stdin t = pre @ l # stdin t'" "setv f l = (None, f')"
      by blast
    have set: "field_set_value E (C f) l = (None, C f')" by (simp add: setv l(3))
    then obtain v where v: "checked E (C f) l = Some v" "stored_value (C f') = v"
      using field_set_value_cases[OF inp, of E l] by auto
    have "\<exists>l\<in>set (stdin t). checked E (C f) l \<noteq> None"
      using l(2) v(1) by auto
    moreover have "\<exists>pre l ves p v. stdin t = pre @ l # stdin t' \<and> field_prompt E (C f) = Inr p
          \<and> map (\<lambda>x. fst (field_set_value E (C f) x)) pre = map (\<lambda>ve. Some (ValidateError ve)) ves
          \<and> stdout t' = stdout t @ concat (map (\<lambda>ve. [Prompt p, Error_line ve]) ves) @ [Prompt p]
          \<and> field_set_value E (C f) l = (None, C f') \<and> checked E (C f) l = Some v
          \<and> stored_value (C f') = v"
      using l(2) Inr pre R(3) set v by blast
    ultimately show ?thesis using R(1) l(1) Inr by (simp add: rend)
  qed
qed

lemma DateField_prompt_raises: "DateField_prompt E f = Inl e \<Longrightarrow> e = AttributeError"
  by (auto simp: DateField_prompt_def Let_def py_strftime_def split: if_splits sum.splits option.splits)

lemma format_exn_not_ValidateError: "format_exn e \<noteq> ValidateError ve"
  by (cases e) simp_all

lemma NumericField_prompt_raises: "NumericField_prompt E f = Inl e \<Longrightarrow> e \<noteq> ValidateError ve"
  by (auto simp: NumericField_prompt_def Let_def str_format_def format_exn_not_ValidateError
      split: sum.splits)

lemma field_render_outcome:
  assumes "is_input fld"
  shows "\<exists>r fld' t'. field_render E fld t = Some (r, fld', t')
    \<and> (\<forall>ve. r \<noteq> Some (ValidateError ve))
    \<and> ((r = None) = ((\<exists>p. field_prompt E fld = Inr p) \<and> (\<exists>l\<in>set (stdin t). checked E fld l \<noteq> None)))
    \<and> (r = None \<longrightarrow> (\<exists>pre l ves p v. stdin t = pre @ l # stdin t' \<and> field_prompt E fld = Inr p
          \<and> map (\<lambda>x. fst (field_set_value E fld x)) pre = map (\<lambda>ve. Some (ValidateError ve)) ves
          \<and> stdout t' = stdout t @ concat (map (\<lambda>ve. [Prompt p, Error_line ve]) ves) @ [Prompt p]
          \<and> field_set_value E fld l = (None, fld') \<and> checked E fld l = Some v
          \<and> stored_value fld' = v))
    \<and> (r \<noteq> None \<longrightarrow> fld' = fld)
    \<and> (\<forall>e. field_prompt E fld = Inl e \<longrightarrow> r = Some e \<and> t' = t)"
proof (cases fld)
  case (NumericF f)
  show ?thesis unfolding NumericF
    by (rule render_via[where fmt = "NumericField_formatted_input E" and setv = "NumericField_set_value E"])
       (simp_all add: NumericField_formatted_input_def NumericField_prompt_raises)
next
  case (StringF f)
  show ?thesis unfolding StringF
    by (rule render_via[where fmt = "StringField_formatted_input E" and setv = "StringField_set_value E"])
       (simp_all add: StringField_formatted_input_def)
next
  case (DateF f)
  show ?thesis unfolding DateF
    by (rule render_via[where fmt = "DateField_formatted_input E" and setv = "DateField_set_value E"])
       (auto simp: DateField_formatted_input_def dest: DateField_prompt_raises)
next
  case (OutputF f)
  with assms show ?thesis by simp
qed

text \<open>
  Claim C7: on every terminal with finitely many input lines, \<open>render\<close> of an input
  field ends, and never with a \<open>ValidateError\<close>. It returns normally exactly when the
  prompt can be built and some line passes conversion and validation; it has then read
  the lines up to the first such line, printed the \<open>ValidateError\<close> of each line
  before it after a prompt, prompted once more, and stored the converted value of that
  line. Otherwise the field is unchanged and \<open>render\<close> ends with the exception
  raised while the prompt was built (by \<open>str.format\<close> on the template of a numeric
  field, by \<open>strftime\<close> of a missing \<open>earlier_than\<close>), the terminal untouched, or
  with \<open>EOFError\<close> at the end of the input.
\<close>

theorem render_catches_ValidateError:
  assumes "is_input fld"
  shows "\<exists>r fld' t'. field_render E fld t = Some (r, fld', t')
    \<and> (\<forall>ve. r \<noteq> Some (ValidateError ve))
    \<and> ((r = None) = ((\<exists>p. field_prompt E fld = Inr p) \<and> (\<exists>l\<in>set (stdin t). checked E fld l \<noteq> None)))
    \<and> (r = None \<longrightarrow> (\<exists>pre l ves p v. stdin t = pre @ l # stdin t' \<and> field_prompt E fld = Inr p
          \<and> map (\<lambda>x. fst (field_set_value E fld x)) pre = map (\<lambda>ve. Some (ValidateError ve)) ves
          \<and> stdout t' = stdout t @ concat (map (\<lambda>ve. [Prompt p, Error_line ve]) ves) @ [Prompt p]
          \<and> field_set_value E fld l = (None, fld') \<and> checked E fld l = Some v
          \<and> stored_value fld' = v))
    \<and> (r \<noteq> None \<longrightarrow> fld' = fld)
    \<and> (\<forall>e. field_prompt E fld = Inl e \<longrightarrow> r = Some e \<and> t' = t)"
  using assms by (rule field_render_outcome)

theorem render_catches_ValidateError_witness:
  "is_input (NumericF \<lparr>priv_value = None, label = ''Age'', hint = None,
        min_value = Some 1, max_value = Some 120, num_class = IntegerField\<rparr>)
   \<and> field_render test_builtins
       (NumericF \<lparr>priv_value = None, label = ''Age'', hint = None,
        min_value = Some 1, max_value = Some 120, num_class = IntegerField\<rparr>)
       \<lparr>stdin = [''abc'', ''500'', ''30'', ''7''], stdout = []\<rparr>
     = Some (None,
        NumericF \<lparr>priv_value = Some 30, label = ''Age'', hint = None,
        min_value = Some 1, max_value = Some 120, num_class = IntegerField\<rparr>,
        \<lparr>stdin = [''7''],
         stdout = [Prompt ''Age (n < n < n): '', Error_line Bad_type,
                   Prompt ''Age (n < n < n): '', Error_line (Outside 1 500 120),
                   Prompt ''Age (n < n < n): '']\<rparr>)"
proof -
  have a: "is_input (NumericF \<lparr>priv_value = None, label = ''Age'', hint = None,
        min_value = Some 1, max_value = Some (120::int), num_class = IntegerField\<rparr>)"
    by simp
  have run: "field_render test_builtins
       (NumericF \<lparr>priv_value = None, label = ''Age'', hint = None,
        min_value = Some 1, max_value = Some 120, num_class = IntegerField\<rparr>)
       \<lparr>stdin = [''abc'', ''500'', ''30'', ''7''], stdout = []\<rparr>
     = Some (None,
        NumericF \<lparr>priv_value = Some 30, label = ''Age'', hint = None,
        min_value = Some 1, max_value = Some 120, num_class = IntegerField\<rparr>,
        \<lparr>stdin = [''7''],
         stdout = [Prompt ''Age (n < n < n): '', Error_line Bad_type,
                   Prompt ''Age (n < n < n): '', Error_line (Outside 1 500 120),
                   Prompt ''Age (n < n < n): '']\<rparr>)"
    apply (simp only: field_render.simps)
    apply (subst InputField_render.simps)
    apply (simp add: eval_defs prompt_defs)
    apply (subst InputField_render.simps)
    apply (simp add: eval_defs prompt_defs)
    apply (subst InputField_render.simps)
    apply (simp add: eval_defs prompt_defs)
    done
  show ?thesis
    using a run render_catches_ValidateError [OF a, of test_builtins
        "\<lparr>stdin = [''abc'', ''500'', ''30'', ''7''], stdout = []\<rparr>"]
    by simp
qed

text \<open>
  A brace in the label of a numeric field is part of the template: here \<open>format\<close>
  raises \<open>ValueError\<close>, and \<open>render\<close> leaves with it before a line is read.
\<close>

lemma NumericField_render_brace_in_label:
  "field_render test_builtins
     (NumericF \<lparr>priv_value = None, label = ''a{'', hint = None,
        min_value = Some 1, max_value = Some 120, num_class = IntegerField\<rparr>)
     \<lparr>stdin = [''30''], stdout = []\<rparr>
   = Some (Some ValueError,
       NumericF \<lparr>priv_value = None, label = ''a{'', hint = None,
        min_value = Some 1, max_value = Some 120, num_class = IntegerField\<rparr>,
       \<lparr>stdin = [''30''], stdout = []\<rparr>)"
  apply (simp only: field_render.simps)
  apply (subst InputField_render.simps)
  apply (simp add: eval_defs prompt_defs)
  done

section \<open>\<open>Form.show\<close>\<close>

lemma Form_show_without_name:
  "form_name F = Missing \<Longrightarrow> Form_show E F t = Some (Inl AttributeError, F, t)"
  by (simp add: Form_show_def show_name_def)

text \<open>
  Claim C8 (\<open>show\<close> skips the banner when \<open>form_name\<close> is absent, renders every
  field and returns the mapping). \<open>show_name\<close> reads \<open>self.form_name\<close> without
  asking whether the attribute exists, unlike \<open>is_valid\<close>, which guards
  \<open>_should_match\<close> with \<open>hasattr\<close>. On a form that never assigned \<open>form_name\<close>,
  \<open>show\<close> raises \<open>AttributeError\<close> before anything is printed or read.
\<close>

theorem Form_show_without_form_name_raises:
  "Form_show test_builtins
     \<lparr>form_name = Missing,
      form_fields = [(''name'', StringF (StringField_init StringField ''Name'' None (Some DEFAULT_MAX_LENGTH)))]\<rparr>
     \<lparr>stdin = [''Alice''], stdout = []\<rparr>
   = Some (Inl AttributeError,
       \<lparr>form_name = Missing,
        form_fields = [(''name'', StringF (StringField_init StringField ''Name'' None (Some DEFAULT_MAX_LENGTH)))]\<rparr>,
       \<lparr>stdin = [''Alice''], stdout = []\<rparr>)"
  by (simp add: Form_show_def show_name_def)

lemma field_render_stdout:
  assumes "field_render E fld t = Some (None, fld', t')"
  shows "\<exists>out. stdout t' = stdout t @ out"
proof (cases "is_input fld")
  case True
  from field_render_outcome[OF True, of E t] assms show ?thesis by auto
next
  case False
  then obtain f where "fld = OutputF f" by (cases fld) auto
  with assms show ?thesis by simp
qed

lemma show_fields_result:
  "show_fields E fs res t = Some (Inr res', fs', t') \<Longrightarrow>
     map fst fs' = map fst fs
     \<and> dom res' = dom res \<union> fst ` set fs
     \<and> (\<forall>k. k \<notin> fst ` set fs \<longrightarrow> res' k = res k)
     \<and> list_all2 (\<lambda>(k, fld) (k', fld'). k' = k \<and> (\<exists>t0 t1. field_render E fld t0 = Some (None, fld', t1))) fs fs'
     \<and> (distinct (map fst fs) \<longrightarrow> (\<forall>(k, fld') \<in> set fs'. \<exists>v. field_value E fld' = Inr v \<and> res' k = Some v))
     \<and> (\<exists>out. stdout t' = stdout t @ out)"
proof (induction fs arbitrary: res t fs' res' t')
  case Nil
  then show ?case by simp
next
  case (Cons a fs)
  obtain k fld where a: "a = (k, fld)" by (cases a)
  from Cons.prems obtain fld1 t1 v rest1 where
    r: "field_render E fld t = Some (None, fld1, t1)"
    and v: "field_value E fld1 = Inr v"
    and s: "show_fields E fs (res(k \<mapsto> v)) t1 = Some (Inr res', rest1, t')"
    and fs': "fs' = (k, fld1) # rest1"
    by (auto simp: a split: option.splits sum.splits)
  note IH = Cons.IH[OF s]
  from field_render_stdout[OF r] obtain o1 where o1: "stdout t1 = stdout t @ o1" by blast
  from IH obtain o2 where o2: "stdout t' = stdout t1 @ o2" by blast
  have out: "\<exists>out. stdout t' = stdout t @ out" using o1 o2 by simp
  have keys: "map fst fs' = map fst (a # fs)" using IH by (simp add: fs' a)
  have dom: "dom res' = dom res \<union> fst ` set (a # fs)" using IH by (auto simp: a)
  have outside: "\<forall>k'. k' \<notin> fst ` set (a # fs) \<longrightarrow> res' k' = res k'"
    using IH by (auto simp: a)
  have rel: "list_all2 (\<lambda>(k, fld) (k', fld'). k' = k \<and> (\<exists>t0 t1. field_render E fld t0 = Some (None, fld', t1))) (a # fs) fs'"
    using IH r by (auto simp: a fs')
  have vals: "distinct (map fst (a # fs)) \<longrightarrow> (\<forall>(k, fld') \<in> set fs'. \<exists>v. field_value E fld' = Inr v \<and> res' k = Some v)"
  proof
    assume d: "distinct (map fst (a # fs))"
    then have "k \<notin> fst ` set fs" and d': "distinct (map fst fs)" by (auto simp: a)
    then have "res' k = Some v" using IH by simp
    then show "\<forall>(k, fld') \<in> set fs'. \<exists>v. field_value E fld' = Inr v \<and> res' k = Some v"
      using IH d' v by (auto simp: fs')
  qed
  show ?case using keys dom outside rel vals out by blast
qed

text \<open>
  With \<open>form_name\<close> assigned (to \<open>None\<close>, to an empty or to a non-empty string) a
  \<open>show\<close> that returns a mapping has printed the banner first when the name is truthy
  and nothing otherwise, has rendered every field, and the mapping has exactly the
  names of the fields as keys, each with the \<open>value\<close> of its field.
\<close>

lemma Form_show_with_name:
  assumes "form_name F = Attr n" and "distinct (map fst (form_fields F))"
    and "Form_show E F t = Some (Inr res, F', t')"
  shows "dom res = fst ` set (form_fields F)"
    and "map fst (form_fields F') = map fst (form_fields F)"
    and "list_all2 (\<lambda>(k, fld) (k', fld'). k' = k \<and> (\<exists>t0 t1. field_render E fld t0 = Some (None, fld', t1)))
           (form_fields F) (form_fields F')"
    and "\<forall>(k, fld') \<in> set (form_fields F'). \<exists>v. field_value E fld' = Inr v \<and> res k = Some v"
    and "\<exists>out. stdout t' = stdout t @
           (if truthy_str n then [Line (''=========='' @ str_upper E (the n) @ ''=========='')] else []) @ out"
proof -
  define t1 where "t1 = (if truthy_str n
      then t\<lparr>stdout := stdout t @ [Line (''=========='' @ str_upper E (the n) @ ''=========='')]\<rparr> else t)"
  have sn: "show_name E F t = (None, t1)" using assms(1) by (simp add: show_name_def t1_def)
  from assms(3) obtain fs where
    s: "show_fields E (form_fields F) Map.empty t1 = Some (Inr res, fs, t')" and F': "F' = F\<lparr>form_fields := fs\<rparr>"
    by (auto simp: Form_show_def sn split: option.splits)
  note R = show_fields_result[OF s]
  show "dom res = fst ` set (form_fields F)" using R by simp
  show "map fst (form_fields F') = map fst (form_fields F)" using R by (simp add: F')
  show "list_all2 (\<lambda>(k, fld) (k', fld'). k' = k \<and> (\<exists>t0 t1. field_render E fld t0 = Some (None, fld', t1)))
           (form_fields F) (form_fields F')" using R by (simp add: F')
  show "\<forall>(k, fld') \<in> set (form_fields F'). \<exists>v. field_value E fld' = Inr v \<and> res k = Some v"
    using R assms(2) by (simp add: F')
  from R obtain out where "stdout t' = stdout t1 @ out" by blast
  then show "\<exists>out. stdout t' = stdout t @
           (if truthy_str n then [Line (''=========='' @ str_upper E (the n) @ ''=========='')] else []) @ out"
    by (simp add: t1_def)
qed

end
